theory Spec2Isabelle
  imports Complex_Main
begin

section \<open>The icon generator \<^verbatim>\<open>create_icon.py\<close>\<close>

text \<open>
  The script draws a house with three sound waves through Pillow's drawing
  primitives and saves the result as a PNG and as a multi-resolution ICO file.

  Conventions of the embedding:
  \<^item> Python's \<^verbatim>\<open>int\<close> is \<open>int\<close>.
  \<^item> Python's \<^verbatim>\<open>float\<close> is idealised as an exact rational (\<open>rat\<close>):
    \<^verbatim>\<open>size / 24\<close> is \<open>of_int size / 24\<close> and the literal \<^verbatim>\<open>0.8\<close> is \<open>4/5\<close>.
    Rounding errors of IEEE doubles are not modelled.
  \<^item> An exception is a value: a call returns \<open>exn + 'a\<close>, \<open>Inl\<close> being the
    exception raised. Only instances of Python's \<^verbatim>\<open>Exception\<close> are modelled.
  \<^item> Pillow is not part of the repository. The program is written against a
    record of library operations (\<open>pil\<close>), so that every theorem about the
    program's own behaviour holds for every behaviour of the library.
\<close>

subsection \<open>Values\<close>

type_synonym rgba = "nat \<times> nat \<times> nat \<times> nat"

text \<open>A bounding box \<^verbatim>\<open>[x0, y0, x1, y1]\<close> and a point \<^verbatim>\<open>(x, y)\<close>, in pixels.\<close>

type_synonym box = "rat \<times> rat \<times> rat \<times> rat"

type_synonym point = "rat \<times> rat"

text \<open>An exception: its class name and \<^verbatim>\<open>str(e)\<close>.\<close>

datatype exn = Exn (exn_class: string) (exn_msg: string)

text \<open>
  Sequencing of statements: an exception raised by a statement aborts the
  statements after it.
\<close>

definition seq :: "exn + 'a \<Rightarrow> ('a \<Rightarrow> exn + 'b) \<Rightarrow> exn + 'b" where
  "seq r f = (case r of Inl e \<Rightarrow> Inl e | Inr x \<Rightarrow> f x)"

text \<open>Python's \<^verbatim>\<open>int(x)\<close> on a float: truncation towards zero.\<close>

definition py_int :: "rat \<Rightarrow> int" where
  "py_int x = (if 0 \<le> x then \<lfloor>x\<rfloor> else \<lceil>x\<rceil>)"

subsection \<open>The library interface\<close>

text \<open>
  The Pillow operations the script calls, over an abstract image type \<open>'img\<close>
  and an abstract file system \<open>'fs\<close>:
  \<^item> \<open>Image_new mode size color\<close> is \<^verbatim>\<open>Image.new(mode, size, color)\<close>;
  \<^item> \<open>arc img box start end fill width\<close> is \<^verbatim>\<open>ImageDraw.Draw(img).arc(box, start, end, fill=, width=)\<close>;
    the \<^verbatim>\<open>Draw\<close> object draws in place on \<^verbatim>\<open>img\<close>, which the model
    renders by returning the image after the call;
  \<^item> \<open>polygon img points fill outline\<close> and \<open>rectangle img box fill outline width\<close>
    likewise (\<^verbatim>\<open>width\<close> defaults to 1);
  \<^item> \<open>img_width\<close> and \<open>img_height\<close> are the attributes \<^verbatim>\<open>img.width\<close> and \<^verbatim>\<open>img.height\<close>;
  \<^item> \<open>save img path format append_images sizes fs\<close> is
    \<^verbatim>\<open>img.save(path, format, append_images=, sizes=)\<close>; it returns the file system
    after the call, also when it raises.
\<close>

record ('img, 'fs) pil =
  Image_new :: "string \<Rightarrow> int \<times> int \<Rightarrow> rgba \<Rightarrow> exn + 'img"
  arc :: "'img \<Rightarrow> box \<Rightarrow> int \<Rightarrow> int \<Rightarrow> rgba \<Rightarrow> int \<Rightarrow> exn + 'img"
  polygon :: "'img \<Rightarrow> point list \<Rightarrow> rgba \<Rightarrow> rgba \<Rightarrow> exn + 'img"
  rectangle :: "'img \<Rightarrow> box \<Rightarrow> rgba \<Rightarrow> rgba \<Rightarrow> int \<Rightarrow> exn + 'img"
  img_width :: "'img \<Rightarrow> int"
  img_height :: "'img \<Rightarrow> int"
  save :: "'img \<Rightarrow> string \<Rightarrow> string \<Rightarrow> 'img list \<Rightarrow> (int \<times> int) list option
             \<Rightarrow> 'fs \<Rightarrow> (exn + unit) \<times> 'fs"

subsection \<open>\<^verbatim>\<open>create_house_with_sound_icon\<close>\<close>

text \<open>The parameter \<^verbatim>\<open>size\<close> is written \<open>sz\<close> (\<open>size\<close> is a constant of HOL).\<close>

definition create_house_with_sound_icon :: "('img, 'fs) pil \<Rightarrow> int \<Rightarrow> exn + 'img" where
  "create_house_with_sound_icon L sz =
     seq (Image_new L ''RGBA'' (sz, sz) (255, 255, 255, 0)) (\<lambda>img.
     let scale = (of_int sz :: rat) / 24;
         color = (40, 40, 40, 255);
         line_width = max 1 (py_int (scale * (4 / 5)))
     in
     seq (arc L img (1 / 2 * scale, 1 * scale, 15 / 2 * scale, 15 / 2 * scale)
            (- 10) 100 color line_width) (\<lambda>img.
     seq (arc L img (2 * scale, 5 / 2 * scale, 7 * scale, 15 / 2 * scale)
            (- 10) 100 color line_width) (\<lambda>img.
     seq (arc L img (4 * scale, 9 / 2 * scale, 7 * scale, 15 / 2 * scale)
            (- 10) 100 color line_width) (\<lambda>img.
     let roof_points = [(9 * scale, 2 * scale), (19 * scale, 12 * scale), (7 * scale, 12 * scale)]
     in
     seq (polygon L img roof_points color color) (\<lambda>img.
     let body_x1 = 7 * scale;
         body_y1 = 12 * scale;
         body_x2 = 19 * scale;
         body_y2 = 22 * scale
     in
     seq (rectangle L img (body_x1, body_y1, body_x2, body_y2) color color 1) (\<lambda>img.
     if sz \<ge> 32 then
       let window_margin = scale * 2;
           window_size = scale * 3;
           window_x1 = body_x1 + window_margin;
           window_y1 = body_y1 + window_margin;
           window_x2 = window_x1 + window_size;
           window_y2 = window_y1 + window_size
       in rectangle L img (window_x1, window_y1, window_x2, window_y2)
            (200, 200, 200, 255) color (max 1 (line_width div 2))
     else Inr img))))))"

subsection \<open>Recording the calls\<close>

text \<open>
  The calls a run makes to the library, in the order it makes them. \<open>traced L\<close>
  is the library \<open>L\<close> with every image paired with the list of calls that
  produced it, every call appended when it returns; the file system is paired
  with the list of \<^verbatim>\<open>save\<close> requests, a request recorded also when it raises.
\<close>

datatype call =
    New string "int \<times> int" rgba
  | Arc box int int rgba int
  | Polygon "point list" rgba rgba
  | Rectangle box rgba rgba int

datatype 'img save_request =
  Save (sv_path: string) (sv_format: string) (sv_image: 'img) (sv_append_images: "'img list")
       (sv_sizes: "(int \<times> int) list option")

definition traced ::
  "('img, 'fs) pil \<Rightarrow> ('img \<times> call list, 'fs \<times> ('img \<times> call list) save_request list) pil" where
  "traced L =
     \<lparr> Image_new = (\<lambda>m sz c. map_sum id (\<lambda>i. (i, [New m sz c])) (Image_new L m sz c)),
       arc = (\<lambda>(i, calls) b s e f w.
                map_sum id (\<lambda>i'. (i', calls @ [Arc b s e f w])) (arc L i b s e f w)),
       polygon = (\<lambda>(i, calls) ps f ol.
                map_sum id (\<lambda>i'. (i', calls @ [Polygon ps f ol])) (polygon L i ps f ol)),
       rectangle = (\<lambda>(i, calls) b f ol w.
                map_sum id (\<lambda>i'. (i', calls @ [Rectangle b f ol w])) (rectangle L i b f ol w)),
       img_width = (\<lambda>(i, calls). img_width L i),
       img_height = (\<lambda>(i, calls). img_height L i),
       save = (\<lambda>img path fmt app sizes (fs, reqs).
                case save L (fst img) path fmt (map fst app) sizes fs of
                  (r, fs') \<Rightarrow> (r, (fs', reqs @ [Save path fmt img app sizes]))) \<rparr>"

text \<open>A library stub whose images carry nothing and whose calls all succeed.\<close>

definition stub_pil :: "(unit, unit) pil" where
  "stub_pil =
     \<lparr> Image_new = (\<lambda>m sz c. Inr ()),
       arc = (\<lambda>i b s e f w. Inr ()),
       polygon = (\<lambda>i ps f ol. Inr ()),
       rectangle = (\<lambda>i b f ol w. Inr ()),
       img_width = (\<lambda>i. 0),
       img_height = (\<lambda>i. 0),
       save = (\<lambda>img path fmt app sizes fs. (Inr (), fs)) \<rparr>"

text \<open>The stroke widths of the arcs among a list of calls.\<close>

fun arc_widths :: "call list \<Rightarrow> int list" where
  "arc_widths [] = []"
| "arc_widths (Arc b s e f w # cs) = w # arc_widths cs"
| "arc_widths (c # cs) = arc_widths cs"

subsection \<open>The console and the file system\<close>

text \<open>
  What the process has written so far: the lines printed on standard output
  and the tracebacks printed by \<^verbatim>\<open>traceback.print_exc()\<close>, in order, and the
  file system the library's \<^verbatim>\<open>save\<close> writes to.
\<close>

datatype out_event = Stdout string | Traceback exn

record 'fs world =
  console :: "out_event list"
  files :: 'fs

definition print :: "string \<Rightarrow> 'fs world \<Rightarrow> 'fs world" where
  "print s w = w\<lparr>console := console w @ [Stdout s]\<rparr>"

definition print_exc :: "exn \<Rightarrow> 'fs world \<Rightarrow> 'fs world" where
  "print_exc e w = w\<lparr>console := console w @ [Traceback e]\<rparr>"

text \<open>Python's \<^verbatim>\<open>str\<close> of an integer and of a list of integers, as f-strings format them.\<close>

definition digit :: "nat \<Rightarrow> char" where
  "digit n = ''0123456789'' ! n"

fun str_nat :: "nat \<Rightarrow> string" where
  "str_nat n = (if n < 10 then [digit n] else str_nat (n div 10) @ [digit (n mod 10)])"

declare str_nat.simps [simp del]

definition str_int :: "int \<Rightarrow> string" where
  "str_int i = (if i < 0 then CHR ''-'' # str_nat (nat (- i)) else str_nat (nat i))"

fun join_commas :: "string list \<Rightarrow> string" where
  "join_commas [] = []"
| "join_commas [x] = x"
| "join_commas (x # y # ys) = x @ '', '' @ join_commas (y # ys)"

definition str_int_list :: "int list \<Rightarrow> string" where
  "str_int_list xs = ''['' @ join_commas (map str_int xs) @ '']''"

subsection \<open>\<^verbatim>\<open>create_ico\<close>\<close>

text \<open>
  The loop \<^verbatim>\<open>for size in sizes\<close>: \<open>images_data\<close> is the list built so far. An
  exception leaves the loop with the lines printed up to it.
\<close>

fun render_all ::
  "('img, 'fs) pil \<Rightarrow> int list \<Rightarrow> 'img list \<Rightarrow> 'fs world \<Rightarrow> (exn + 'img list) \<times> 'fs world" where
  "render_all L [] images_data w = (Inr images_data, w)"
| "render_all L (sz # sizes) images_data w =
     (let w = print (''  Creating '' @ str_int sz @ ''x'' @ str_int sz @ '' icon...'') w
      in case create_house_with_sound_icon L sz of
           Inl e \<Rightarrow> (Inl e, w)
         | Inr img \<Rightarrow> render_all L sizes (images_data @ [img]) w)"

text \<open>
  \<^verbatim>\<open>images_data[0]\<close> raises \<^verbatim>\<open>IndexError\<close> on the empty list. The \<^verbatim>\<open>save\<close> call
  passes the first image as the one saved, the others as \<^verbatim>\<open>append_images\<close> and
  the dimensions of all of them as \<^verbatim>\<open>sizes\<close>.
\<close>

definition create_ico ::
  "('img, 'fs) pil \<Rightarrow> string \<Rightarrow> int list \<Rightarrow> 'fs world \<Rightarrow> (exn + unit) \<times> 'fs world" where
  "create_ico L output_path sizes w =
     (let w = print ''Generating icon at multiple resolutions...'' w
      in case render_all L sizes [] w of
           (Inl e, w) \<Rightarrow> (Inl e, w)
         | (Inr images_data, w) \<Rightarrow>
             (let w = print (''Saving ICO file to '' @ output_path @ ''...'') w
              in case images_data of
                   [] \<Rightarrow> (Inl (Exn ''IndexError'' ''list index out of range''), w)
                 | first # others \<Rightarrow>
                     (case save L first output_path ''ICO'' others
                             (Some (map (\<lambda>img. (img_width L img, img_height L img)) images_data))
                             (files w) of
                        (Inl e, fs) \<Rightarrow> (Inl e, w\<lparr>files := fs\<rparr>)
                      | (Inr u, fs) \<Rightarrow>
                          (let w = w\<lparr>files := fs\<rparr>;
                               w = print (''Successfully created '' @ output_path) w;
                               w = print (''Number of sizes: '' @ str_int (int (length sizes))) w;
                               w = print (''Sizes included: '' @ str_int_list sizes) w
                           in (Inr (), w)))))"

text \<open>The default of the parameter \<^verbatim>\<open>sizes\<close>.\<close>

definition default_sizes :: "int list" where
  "default_sizes = [16, 24, 32, 48, 256]"

subsection \<open>The main program\<close>

text \<open>The body of the \<^verbatim>\<open>try\<close> block.\<close>

definition main_try ::
  "('img, 'fs) pil \<Rightarrow> string \<Rightarrow> string \<Rightarrow> 'fs world \<Rightarrow> (exn + unit) \<times> 'fs world" where
  "main_try L output_file png_file w =
     (let w = print ''Creating PNG icon...'' w
      in case create_house_with_sound_icon L 48 of
           Inl e \<Rightarrow> (Inl e, w)
         | Inr png_icon \<Rightarrow>
             (case save L png_icon png_file ''PNG'' [] None (files w) of
                (Inl e, fs) \<Rightarrow> (Inl e, w\<lparr>files := fs\<rparr>)
              | (Inr u, fs) \<Rightarrow>
                  (let w = w\<lparr>files := fs\<rparr>;
                       w = print (''PNG icon created: '' @ png_file) w
                   in case create_ico L output_file default_sizes w of
                        (Inl e, w) \<Rightarrow> (Inl e, w)
                      | (Inr u, w) \<Rightarrow>
                          (let w = print (CHR 0x0A # ''Icon files created successfully!'') w;
                               w = print (''  - '' @ output_file @ '' (multi-resolution ICO)'') w;
                               w = print (''  - '' @ png_file @ '' (48x48 PNG)'') w
                           in (Inr (), w)))))"

text \<open>
  The \<^verbatim>\<open>try\<close> statement under \<^verbatim>\<open>if __name__ == "__main__"\<close>: the world the
  process leaves and its exit status. \<^verbatim>\<open>sys.exit(1)\<close> ends the process with
  status 1; a run that reaches the end of the script ends with status 0.
\<close>

definition main :: "('img, 'fs) pil \<Rightarrow> 'fs world \<Rightarrow> 'fs world \<times> int" where
  "main L w =
     (let output_file = ''src/app.ico'';
          png_file = ''src/app.png''
      in case main_try L output_file png_file w of
           (Inr u, w) \<Rightarrow> (w, 0)
         | (Inl e, w) \<Rightarrow>
             (let w = print (''Error creating icon: '' @ exn_msg e) w;
                  w = print_exc e w
              in (w, 1)))"

text \<open>
  The script as a whole: when \<^verbatim>\<open>from PIL import Image, ImageDraw\<close> raises
  \<^verbatim>\<open>ImportError\<close> there is no library (\<open>None\<close>), and the script prints two
  lines and exits with status 1.
\<close>

definition script :: "('img, 'fs) pil option \<Rightarrow> 'fs world \<Rightarrow> 'fs world \<times> int" where
  "script lib w =
     (case lib of
        None \<Rightarrow>
          (let w = print ''Error: Pillow not installed.'' w;
               w = print ''Please run: pip install pillow'' w
           in (w, 1))
      | Some L \<Rightarrow> main L w)"

subsection \<open>A pixel model of the library\<close>

text \<open>
  Pillow itself is outside the repository. For the claims about pixels the
  library is modelled as far as its documentation fixes it:
  \<^item> an image has a mode, a width, a height and one colour for each pixel
    \<open>(x, y)\<close> with \<open>0 \<le> x < width\<close> and \<open>0 \<le> y < height\<close>;
  \<^item> \<^verbatim>\<open>Image.new\<close> gives every pixel the colour passed, and raises
    \<^verbatim>\<open>ValueError\<close> for a negative width or height;
  \<^item> a drawing call on an \<^verbatim>\<open>RGBA\<close> image overwrites the pixels it covers with
    the ink passed (no blending), the fill first and the outline after it, the
    outline only when its ink differs from the fill's;
  \<^item> a rectangle covers the pixels of its bounding box, both corners
    included, the corners truncated to integers; its outline of width \<open>w\<close>
    covers the pixels of the box less than \<open>w\<close> away from its border.
  Which pixels an arc and a polygon cover is Pillow's rasteriser's decision:
  the model takes it as a parameter (\<open>rasteriser\<close>), and the theorems hold for
  every rasteriser. The encoder behind \<^verbatim>\<open>save\<close> is a parameter as well.
\<close>

record image =
  mode :: string
  width :: int
  height :: int
  px :: "int \<times> int \<Rightarrow> rgba option"

type_synonym region = "int \<times> int \<Rightarrow> bool"

record rasteriser =
  arc_region :: "box \<Rightarrow> int \<Rightarrow> int \<Rightarrow> int \<Rightarrow> region"
  polygon_fill_region :: "point list \<Rightarrow> region"
  polygon_outline_region :: "point list \<Rightarrow> region"

definition box_region :: "box \<Rightarrow> region" where
  "box_region b =
     (\<lambda>(x, y). case b of (x0, y0, x1, y1) \<Rightarrow>
        py_int x0 \<le> x \<and> x \<le> py_int x1 \<and> py_int y0 \<le> y \<and> y \<le> py_int y1)"

definition outline_region :: "box \<Rightarrow> int \<Rightarrow> region" where
  "outline_region b w =
     (\<lambda>(x, y). case b of (x0, y0, x1, y1) \<Rightarrow>
        box_region b (x, y) \<and>
        \<not> (py_int x0 + w \<le> x \<and> x \<le> py_int x1 - w \<and> py_int y0 + w \<le> y \<and> y \<le> py_int y1 - w))"

text \<open>The regions a call paints, each with its ink, in the order it paints them.\<close>

fun layers :: "rasteriser \<Rightarrow> call \<Rightarrow> (region \<times> rgba) list" where
  "layers R (New m s c) = []"
| "layers R (Arc b s e f w) = [(arc_region R b s e w, f)]"
| "layers R (Polygon ps f ol) =
     (polygon_fill_region R ps, f) # (if ol \<noteq> f then [(polygon_outline_region R ps, ol)] else [])"
| "layers R (Rectangle b f ol w) =
     (box_region b, f) # (if ol \<noteq> f \<and> w \<noteq> 0 then [(outline_region b w, ol)] else [])"

definition paint :: "image \<Rightarrow> region \<times> rgba \<Rightarrow> image" where
  "paint img l =
     img\<lparr>px := (\<lambda>p. if fst l p \<and> px img p \<noteq> None then Some (snd l) else px img p)\<rparr>"

definition draw :: "rasteriser \<Rightarrow> call \<Rightarrow> image \<Rightarrow> image" where
  "draw R c img = foldl paint img (layers R c)"

definition pillow ::
  "rasteriser \<Rightarrow>
   (image \<Rightarrow> string \<Rightarrow> string \<Rightarrow> image list \<Rightarrow> (int \<times> int) list option \<Rightarrow> 'fs \<Rightarrow> (exn + unit) \<times> 'fs)
   \<Rightarrow> (image, 'fs) pil" where
  "pillow R E =
     \<lparr> Image_new = (\<lambda>m (w, h) c.
         if w < 0 \<or> h < 0 then Inl (Exn ''ValueError'' ''Width and height must be >= 0'')
         else Inr \<lparr> mode = m, width = w, height = h,
                   px = (\<lambda>(x, y). if 0 \<le> x \<and> x < w \<and> 0 \<le> y \<and> y < h then Some c else None) \<rparr>),
       arc = (\<lambda>img b s e f w. Inr (draw R (Arc b s e f w) img)),
       polygon = (\<lambda>img ps f ol. Inr (draw R (Polygon ps f ol) img)),
       rectangle = (\<lambda>img b f ol w. Inr (draw R (Rectangle b f ol w) img)),
       img_width = width,
       img_height = height,
       save = E \<rparr>"

text \<open>
  The colour of a pixel under a list of layers painted in order over the colour
  \<open>c\<close>: the ink of the last layer that covers it.
\<close>

fun topmost :: "(region \<times> rgba) list \<Rightarrow> rgba \<Rightarrow> int \<times> int \<Rightarrow> rgba" where
  "topmost [] c p = c"
| "topmost (l # ls) c p = topmost ls (if fst l p then snd l else c) p"

subsection \<open>Notions the theorems use\<close>


text \<open>The alpha channel of a colour.\<close>

fun alpha :: "rgba \<Rightarrow> nat" where
  "alpha (r, g, b, a) = a"


subsection \<open>Concrete parameters\<close>

text \<open>
  Instances of the model's parameters, to evaluate it at concrete pixels: a
  rasteriser for which arcs and polygons cover no pixel, an encoder that
  accepts every request and one that raises on every request.
\<close>

definition no_curves :: rasteriser where
  "no_curves =
     \<lparr> arc_region = (\<lambda>b s e w p. False),
       polygon_fill_region = (\<lambda>ps p. False),
       polygon_outline_region = (\<lambda>ps p. False) \<rparr>"

definition accepting ::
  "image \<Rightarrow> string \<Rightarrow> string \<Rightarrow> image list \<Rightarrow> (int \<times> int) list option \<Rightarrow> unit
     \<Rightarrow> (exn + unit) \<times> unit" where
  "accepting img path fmt app sizes fs = (Inr (), fs)"

definition refusing ::
  "exn \<Rightarrow> image \<Rightarrow> string \<Rightarrow> string \<Rightarrow> image list \<Rightarrow> (int \<times> int) list option \<Rightarrow> unit
     \<Rightarrow> (exn + unit) \<times> unit" where
  "refusing e img path fmt app sizes fs = (Inl e, fs)"

section \<open>Theorems\<close>

lemma line_width_closed_form:
  "max 1 (py_int ((of_int sz :: rat) / 24 * (4 / 5))) = max 1 (sz div 30)"
proof (cases "0 \<le> sz")
  case True
  have "(of_int sz :: rat) / 24 * (4 / 5) = of_int sz / of_int 30" by simp
  then have "\<lfloor>(of_int sz :: rat) / 24 * (4 / 5)\<rfloor> = sz div 30"
    by (simp only: floor_divide_of_int_eq)
  with True show ?thesis by (simp add: py_int_def)
next
  case False
  then have neg: "sz < 0" by simp
  have eq: "(of_int sz :: rat) / 24 * (4 / 5) = of_int sz / 30" by simp
  have "(of_int sz :: rat) / 30 < 0" using neg by simp
  then have "\<lceil>(of_int sz :: rat) / 30\<rceil> \<le> 0" by (simp add: ceiling_le_iff)
  moreover have "sz div 30 \<le> 0" using neg by simp
  ultimately show ?thesis using neg by (simp add: py_int_def eq)
qed

subsection \<open>What a run asks of the library\<close>

lemma seq_Inr_iff: "seq r f = Inr y \<longleftrightarrow> (\<exists>x. r = Inr x \<and> f x = Inr y)"
  by (cases r) (simp_all add: seq_def)

lemma traced_Inr_iff:
  "Image_new (traced L) m s c = Inr (i, cs) \<longleftrightarrow> Image_new L m s c = Inr i \<and> cs = [New m s c]"
  "arc (traced L) (i0, cs0) b s1 e f w = Inr (i, cs) \<longleftrightarrow>
     arc L i0 b s1 e f w = Inr i \<and> cs = cs0 @ [Arc b s1 e f w]"
  "polygon (traced L) (i0, cs0) ps f ol = Inr (i, cs) \<longleftrightarrow>
     polygon L i0 ps f ol = Inr i \<and> cs = cs0 @ [Polygon ps f ol]"
  "rectangle (traced L) (i0, cs0) b f ol w = Inr (i, cs) \<longleftrightarrow>
     rectangle L i0 b f ol w = Inr i \<and> cs = cs0 @ [Rectangle b f ol w]"
  by (auto simp: traced_def map_sum_def split: sum.splits)

text \<open>
  Whatever the library returns, a run that completes has made these calls, in
  this order.
\<close>

lemma traced_run_calls:
  assumes "create_house_with_sound_icon (traced L) sz = Inr (img, calls)"
  shows "calls =
    [New ''RGBA'' (sz, sz) (255, 255, 255, 0),
     Arc (1 / 2 * (of_int sz / 24), 1 * (of_int sz / 24), 15 / 2 * (of_int sz / 24), 15 / 2 * (of_int sz / 24))
       (- 10) 100 (40, 40, 40, 255) (max 1 (sz div 30)),
     Arc (2 * (of_int sz / 24), 5 / 2 * (of_int sz / 24), 7 * (of_int sz / 24), 15 / 2 * (of_int sz / 24))
       (- 10) 100 (40, 40, 40, 255) (max 1 (sz div 30)),
     Arc (4 * (of_int sz / 24), 9 / 2 * (of_int sz / 24), 7 * (of_int sz / 24), 15 / 2 * (of_int sz / 24))
       (- 10) 100 (40, 40, 40, 255) (max 1 (sz div 30)),
     Polygon [(9 * (of_int sz / 24), 2 * (of_int sz / 24)), (19 * (of_int sz / 24), 12 * (of_int sz / 24)),
              (7 * (of_int sz / 24), 12 * (of_int sz / 24))] (40, 40, 40, 255) (40, 40, 40, 255),
     Rectangle (7 * (of_int sz / 24), 12 * (of_int sz / 24), 19 * (of_int sz / 24), 22 * (of_int sz / 24))
       (40, 40, 40, 255) (40, 40, 40, 255) 1] @
    (if 32 \<le> sz
     then [Rectangle (9 * (of_int sz / 24), 14 * (of_int sz / 24), 12 * (of_int sz / 24), 17 * (of_int sz / 24))
             (200, 200, 200, 255) (40, 40, 40, 255) (max 1 (max 1 (sz div 30) div 2))]
     else [])"
  using assms
  unfolding create_house_with_sound_icon_def Let_def line_width_closed_form
  by (auto simp: seq_Inr_iff traced_Inr_iff split: if_splits)

text \<open>The run at size 48 against the stub.\<close>

lemma stub_run_48:
  "create_house_with_sound_icon (traced stub_pil) 48 = Inr ((),
    [New ''RGBA'' (48, 48) (255, 255, 255, 0),
     Arc (1, 2, 15, 15) (- 10) 100 (40, 40, 40, 255) 1,
     Arc (4, 5, 14, 15) (- 10) 100 (40, 40, 40, 255) 1,
     Arc (8, 9, 14, 15) (- 10) 100 (40, 40, 40, 255) 1,
     Polygon [(18, 4), (38, 24), (14, 24)] (40, 40, 40, 255) (40, 40, 40, 255),
     Rectangle (14, 24, 38, 44) (40, 40, 40, 255) (40, 40, 40, 255) 1,
     Rectangle (18, 28, 24, 34) (200, 200, 200, 255) (40, 40, 40, 255) 1])"
  by (simp add: create_house_with_sound_icon_def traced_def stub_pil_def seq_def py_int_def Let_def)

text \<open>Tracing does not change what a run returns.\<close>

lemma traced_fst:
  "map_sum id fst (create_house_with_sound_icon (traced L) sz) = create_house_with_sound_icon L sz"
  unfolding create_house_with_sound_icon_def Let_def
  by (auto simp: seq_def traced_def map_sum_def split: sum.splits)

subsection \<open>The pixel model\<close>

lemma topmost_append: "topmost (xs @ ys) c p = topmost ys (topmost xs c p) p"
  by (induction xs arbitrary: c) simp_all

lemma px_paint: "px (paint img l) p = map_option (\<lambda>c. if fst l p then snd l else c) (px img p)"
  by (cases "px img p") (auto simp: paint_def)

lemma px_foldl_paint: "px (foldl paint img ls) p = map_option (\<lambda>c. topmost ls c p) (px img p)"
proof (induction ls arbitrary: img)
  case Nil
  show ?case by (simp add: option.map_ident)
next
  case (Cons l ls)
  show ?case by (simp add: Cons.IH px_paint option.map_comp comp_def)
qed

lemma frame_foldl_paint:
  "mode (foldl paint img ls) = mode img \<and> width (foldl paint img ls) = width img
   \<and> height (foldl paint img ls) = height img"
  by (induction ls arbitrary: img) (simp_all add: paint_def)

lemma px_draw: "px (draw R c img) p = map_option (\<lambda>c0. topmost (layers R c) c0 p) (px img p)"
  by (simp add: draw_def px_foldl_paint)

lemma frame_draw:
  "mode (draw R c img) = mode img"
  "width (draw R c img) = width img"
  "height (draw R c img) = height img"
  by (simp_all add: draw_def frame_foldl_paint)

lemma pillow_ops:
  "Image_new (pillow R E) m (w, h) c =
     (if w < 0 \<or> h < 0 then Inl (Exn ''ValueError'' ''Width and height must be >= 0'')
      else Inr \<lparr> mode = m, width = w, height = h,
                px = (\<lambda>(x, y). if 0 \<le> x \<and> x < w \<and> 0 \<le> y \<and> y < h then Some c else None) \<rparr>)"
  "arc (pillow R E) img b s e f wd = Inr (draw R (Arc b s e f wd) img)"
  "polygon (pillow R E) img ps f ol = Inr (draw R (Polygon ps f ol) img)"
  "rectangle (pillow R E) img b f ol wd = Inr (draw R (Rectangle b f ol wd) img)"
  "img_width (pillow R E) = width"
  "img_height (pillow R E) = height"
  "save (pillow R E) = E"
  by (simp_all add: pillow_def)

lemma seq_Inr [simp]: "seq (Inr x) f = f x"
  by (simp add: seq_def)

lemma traced_run_untraced:
  assumes "create_house_with_sound_icon (traced L) sz = Inr (img, calls)"
  shows "create_house_with_sound_icon L sz = Inr img"
  using traced_fst[of L sz] assms by simp

lemma px_foldl_draw:
  "px (foldl (\<lambda>im c. draw R c im) img cs) p =
     map_option (\<lambda>c0. topmost (concat (map (layers R) cs)) c0 p) (px img p)"
proof (induction cs arbitrary: img)
  case Nil
  show ?case by (simp add: option.map_ident)
next
  case (Cons c cs)
  show ?case by (simp add: Cons.IH px_draw topmost_append option.map_comp comp_def)
qed

lemma frame_foldl_draw:
  "mode (foldl (\<lambda>im c. draw R c im) img cs) = mode img
   \<and> width (foldl (\<lambda>im c. draw R c im) img cs) = width img
   \<and> height (foldl (\<lambda>im c. draw R c im) img cs) = height img"
  by (induction cs arbitrary: img) (simp_all add: frame_draw)

lemma py_int_div30: "0 \<le> sz \<Longrightarrow> py_int (of_int sz / 30) = sz div 30"
proof -
  assume "0 \<le> sz"
  have "\<lfloor>(of_int sz :: rat) / of_int 30\<rfloor> = sz div 30" by (rule floor_divide_of_int_eq)
  with \<open>0 \<le> sz\<close> show ?thesis by (simp add: py_int_def)
qed

text \<open>
  The image a run returns in the pixel model: the blank canvas with the calls
  of the run drawn on it in order.
\<close>

lemma pillow_run:
  assumes "0 \<le> sz" and "create_house_with_sound_icon (traced (pillow R E)) sz = Inr (img, calls)"
  shows "img = foldl (\<lambda>im c. draw R c im)
           \<lparr> mode = ''RGBA'', width = sz, height = sz,
             px = (\<lambda>(x, y). if 0 \<le> x \<and> x < sz \<and> 0 \<le> y \<and> y < sz
                          then Some (255, 255, 255, 0) else None) \<rparr>
           (tl calls)"
proof -
  have u: "create_house_with_sound_icon (pillow R E) sz = Inr img"
    by (rule traced_run_untraced[OF assms(2)])
  show ?thesis
  proof (cases "32 \<le> sz")
    case True
    with u assms(1) show ?thesis
      unfolding traced_run_calls[OF assms(2)]
      by (simp add: create_house_with_sound_icon_def Let_def py_int_div30 pillow_ops)
  next
    case False
    with u assms(1) show ?thesis
      unfolding traced_run_calls[OF assms(2)]
      by (simp add: create_house_with_sound_icon_def Let_def py_int_div30 pillow_ops)
  qed
qed

text \<open>
  Hence every pixel of the canvas has the ink of the last layer, among those of
  the calls made, that covers it, and the colour of the blank canvas when none
  does.
\<close>

lemma pillow_run_px:
  assumes "0 \<le> sz" and "create_house_with_sound_icon (traced (pillow R E)) sz = Inr (img, calls)"
  shows "mode img = ''RGBA'' \<and> width img = sz \<and> height img = sz \<and>
         px img (x, y) = (if 0 \<le> x \<and> x < sz \<and> 0 \<le> y \<and> y < sz
                     then Some (topmost (concat (map (layers R) calls)) (255, 255, 255, 0) (x, y))
                     else None)"
proof -
  have hd: "calls = New ''RGBA'' (sz, sz) (255, 255, 255, 0) # tl calls"
    by (simp add: traced_run_calls[OF assms(2)])
  have l: "concat (map (layers R) calls) = concat (map (layers R) (tl calls))"
    by (subst hd) simp
  show ?thesis
    unfolding l
    by (subst (1 2 3 4) pillow_run[OF assms]) (simp add: px_foldl_draw frame_foldl_draw)
qed

text \<open>In the pixel model a run at a size that is not negative completes.\<close>

lemma pillow_run_ok:
  assumes "0 \<le> sz"
  shows "\<exists>img calls. create_house_with_sound_icon (traced (pillow R E)) sz = Inr (img, calls)"
  using assms
  unfolding create_house_with_sound_icon_def Let_def
  by (auto simp: seq_Inr_iff traced_Inr_iff pillow_ops)

subsection \<open>C1: the stroke width of the arcs\<close>

text \<open>
  C1, as amended. For every positive size, a run draws exactly three arcs and
  strokes each with a width of \<open>max 1 \<lfloor>size / 24 * 0.8\<rfloor>\<close> pixels: the product is
  truncated (\<^verbatim>\<open>int(...)\<close>), not rounded to the nearest integer. That width is
  \<open>max 1 (size div 30)\<close>.
\<close>

theorem arcs_stroke_width:
  assumes "0 < sz" and "create_house_with_sound_icon (traced L) sz = Inr (img, calls)"
  shows "arc_widths calls = replicate 3 (max 1 \<lfloor>(of_int sz :: rat) / 24 * (4 / 5)\<rfloor>)
         \<and> max 1 \<lfloor>(of_int sz :: rat) / 24 * (4 / 5)\<rfloor> = max 1 (sz div 30)"
proof -
  have w: "max 1 \<lfloor>(of_int sz :: rat) / 24 * (4 / 5)\<rfloor> = max 1 (sz div 30)"
    using line_width_closed_form[of sz] assms(1) by (simp add: py_int_def)
  have "arc_widths calls = replicate 3 (max 1 (sz div 30))"
    by (simp add: traced_run_calls[OF assms(2)] numeral_3_eq_3)
  with w show ?thesis by simp
qed

theorem arcs_stroke_width_witness:
  "0 < (48::int)
   \<and> arc_widths (snd (projr (create_house_with_sound_icon (traced stub_pil) 48))) = [1, 1, 1]"
  using arcs_stroke_width[OF _ stub_run_48] by (simp add: stub_run_48)

text \<open>
  C1 as stated fails at size 48: the scale is 2, the product 1.6, the arcs are
  stroked with width 1, and rounding to the nearest integer would give 2.
\<close>

theorem arcs_stroke_width_round_counterexample:
  "arc_widths (snd (projr (create_house_with_sound_icon (traced stub_pil) 48))) = [1, 1, 1]
   \<and> replicate 3 (max 1 (round ((of_int 48 :: rat) / 24 * (4 / 5)))) = [2, 2, 2]"
  by (simp add: stub_run_48 round_def numeral_3_eq_3 floor_eq_iff)

subsection \<open>C6: the order of the drawing calls\<close>
lemma box_region_simp:
  "box_region (x0, y0, x1, y1) (x, y) \<longleftrightarrow>
     py_int x0 \<le> x \<and> x \<le> py_int x1 \<and> py_int y0 \<le> y \<and> y \<le> py_int y1"
  by (simp add: box_region_def)

lemma outline_region_simp:
  "outline_region (x0, y0, x1, y1) w (x, y) \<longleftrightarrow>
     box_region (x0, y0, x1, y1) (x, y) \<and>
     \<not> (py_int x0 + w \<le> x \<and> x \<le> py_int x1 - w \<and> py_int y0 + w \<le> y \<and> y \<le> py_int y1 - w)"
  by (simp add: outline_region_def)

lemma py_int_numeral [simp]: "py_int (numeral n) = numeral n"
  by (simp add: py_int_def)



subsection \<open>C2: the window\<close>
















subsection \<open>C3: the canvas\<close>

lemma topmost_uncovered: "\<forall>l \<in> set ls. \<not> fst l p \<Longrightarrow> topmost ls c p = c"
  by (induction ls arbitrary: c) simp_all





subsection \<open>C9: the colour of the new canvas\<close>

text \<open>
  C9. A run asks for a canvas filled with \<open>(255, 255, 255, 0)\<close>. In the pixel
  model every pixel of the new canvas has exactly that colour, the image
  returned is that canvas with the drawing calls applied, and a pixel that no
  call covers still has it in the image returned. The colour has alpha 0 and is
  not transparent black.
\<close>

theorem canvas_created_white_transparent:
  assumes "0 < sz"
    and "create_house_with_sound_icon (traced L) sz = Inr (img, calls)"
    and "create_house_with_sound_icon (traced (pillow R E)) sz = Inr (pimg, pcalls)"
  shows "hd calls = New ''RGBA'' (sz, sz) (255, 255, 255, 0)
    \<and> (\<exists>img0. Image_new (pillow R E) ''RGBA'' (sz, sz) (255, 255, 255, 0) = Inr img0
          \<and> pimg = foldl (\<lambda>im c. draw R c im) img0 (tl pcalls)
          \<and> (\<forall>x y. px img0 (x, y) =
                (if 0 \<le> x \<and> x < sz \<and> 0 \<le> y \<and> y < sz then Some (255, 255, 255, 0) else None)))
    \<and> (\<forall>x y. 0 \<le> x \<and> x < sz \<and> 0 \<le> y \<and> y < sz
              \<and> \<not> (\<exists>l \<in> set (concat (map (layers R) pcalls)). fst l (x, y))
            \<longrightarrow> px pimg (x, y) = Some (255, 255, 255, 0))
    \<and> alpha (255, 255, 255, 0) = 0 \<and> (255, 255, 255, 0) \<noteq> ((0, 0, 0, 0) :: rgba)"
proof -
  have nn: "0 \<le> sz" using assms(1) by simp
  have h: "hd calls = New ''RGBA'' (sz, sz) (255, 255, 255, 0)"
    by (simp add: traced_run_calls[OF assms(2)])
  define img0 where "img0 = \<lparr> mode = ''RGBA'', width = sz, height = sz,
             px = (\<lambda>(x, y). if 0 \<le> x \<and> x < sz \<and> 0 \<le> y \<and> y < sz
                          then Some (255, 255, 255, 0) else None) \<rparr>"
  have new: "Image_new (pillow R E) ''RGBA'' (sz, sz) (255, 255, 255, 0) = Inr img0"
    using nn by (simp add: pillow_ops img0_def)
  have fold: "pimg = foldl (\<lambda>im c. draw R c im) img0 (tl pcalls)"
    unfolding img0_def by (rule pillow_run[OF nn assms(3)])
  have p0: "\<forall>x y. px img0 (x, y) =
                (if 0 \<le> x \<and> x < sz \<and> 0 \<le> y \<and> y < sz then Some (255, 255, 255, 0) else None)"
    by (simp add: img0_def)
  have unc: "px pimg (x, y) = Some (255, 255, 255, 0)"
    if "0 \<le> x \<and> x < sz \<and> 0 \<le> y \<and> y < sz"
      and "\<not> (\<exists>l \<in> set (concat (map (layers R) pcalls)). fst l (x, y))" for x y
  proof -
    have "topmost (concat (map (layers R) pcalls)) (255, 255, 255, 0) (x, y) = (255, 255, 255, 0)"
      using that(2) by (intro topmost_uncovered) blast
    then show ?thesis using pillow_run_px[OF nn assms(3), of x y] that(1) by simp
  qed
  from h new fold p0 unc show ?thesis by (simp del: set_concat)
qed


text \<open>The calls of the run at size 48 in the pixel model.\<close>

lemma pillow_run_48:
  "\<exists>pimg. create_house_with_sound_icon (traced (pillow R E)) 48 = Inr (pimg,
    [New ''RGBA'' (48, 48) (255, 255, 255, 0),
     Arc (1, 2, 15, 15) (- 10) 100 (40, 40, 40, 255) 1,
     Arc (4, 5, 14, 15) (- 10) 100 (40, 40, 40, 255) 1,
     Arc (8, 9, 14, 15) (- 10) 100 (40, 40, 40, 255) 1,
     Polygon [(18, 4), (38, 24), (14, 24)] (40, 40, 40, 255) (40, 40, 40, 255),
     Rectangle (14, 24, 38, 44) (40, 40, 40, 255) (40, 40, 40, 255) 1,
     Rectangle (18, 28, 24, 34) (200, 200, 200, 255) (40, 40, 40, 255) 1])"
proof -
  obtain pimg pcalls where
    run: "create_house_with_sound_icon (traced (pillow R E)) 48 = Inr (pimg, pcalls)"
    using pillow_run_ok[of 48 R E] by auto
  have "pcalls = snd (projr (create_house_with_sound_icon (traced stub_pil) 48))"
    by (simp only: traced_run_calls[OF run] traced_run_calls[OF stub_run_48] stub_run_48
          sum.sel snd_conv)
  with run show ?thesis by (simp add: stub_run_48)
qed

theorem canvas_created_white_transparent_witness:
  "0 < (48::int)
   \<and> hd (snd (projr (create_house_with_sound_icon (traced stub_pil) 48)))
       = New ''RGBA'' (48, 48) (255, 255, 255, 0)
   \<and> (\<exists>pimg pcalls.
        create_house_with_sound_icon (traced (pillow no_curves accepting)) 48 = Inr (pimg, pcalls)
        \<and> px pimg (0, 0) = Some (255, 255, 255, 0)
        \<and> px pimg (47, 47) = Some (255, 255, 255, 0))"
proof -
  obtain pimg where
    run: "create_house_with_sound_icon (traced (pillow no_curves accepting)) 48 = Inr (pimg,
    [New ''RGBA'' (48, 48) (255, 255, 255, 0),
     Arc (1, 2, 15, 15) (- 10) 100 (40, 40, 40, 255) 1,
     Arc (4, 5, 14, 15) (- 10) 100 (40, 40, 40, 255) 1,
     Arc (8, 9, 14, 15) (- 10) 100 (40, 40, 40, 255) 1,
     Polygon [(18, 4), (38, 24), (14, 24)] (40, 40, 40, 255) (40, 40, 40, 255),
     Rectangle (14, 24, 38, 44) (40, 40, 40, 255) (40, 40, 40, 255) 1,
     Rectangle (18, 28, 24, 34) (200, 200, 200, 255) (40, 40, 40, 255) 1])"
    using pillow_run_48[of no_curves accepting] by auto
  note t = canvas_created_white_transparent[OF _ stub_run_48 run]
  have a: "px pimg (0, 0) = Some (255, 255, 255, 0)"
    using t by (simp add: no_curves_def box_region_simp outline_region_simp)
  have b: "px pimg (47, 47) = Some (255, 255, 255, 0)"
    using t by (simp add: no_curves_def box_region_simp outline_region_simp)
  from run a b show ?thesis by (simp add: stub_run_48)
qed

subsection \<open>C10: the window lies within the body\<close>




subsection \<open>C8: determinism\<close>

text \<open>
  C8. Two runs at the same size make the same calls with the same arguments,
  whatever the two libraries return to them: nothing but the size decides the
  geometry. In the pixel model two runs at the same size with the same
  rasteriser return the same image, pixel for pixel, whatever the encoders and
  the file system are.
\<close>

theorem render_deterministic:
  assumes "create_house_with_sound_icon (traced L1) sz = Inr (img1, calls1)"
    and "create_house_with_sound_icon (traced L2) sz = Inr (img2, calls2)"
    and "create_house_with_sound_icon (pillow R E1) sz = Inr a"
    and "create_house_with_sound_icon (pillow R E2) sz = Inr b"
  shows "calls1 = calls2 \<and> a = b"
proof -
  have c: "calls1 = calls2"
    by (simp only: traced_run_calls[OF assms(1)] traced_run_calls[OF assms(2)])
  have "create_house_with_sound_icon (pillow R E1) sz = create_house_with_sound_icon (pillow R E2) sz"
    by (simp add: create_house_with_sound_icon_def pillow_ops Let_def)
  with assms(3,4) have "a = b" by simp
  with c show ?thesis by simp
qed

theorem render_deterministic_witness:
  "\<exists>img2 calls2 a b.
     create_house_with_sound_icon (traced (pillow no_curves accepting)) 48 = Inr (img2, calls2)
     \<and> calls2 = snd (projr (create_house_with_sound_icon (traced stub_pil) 48))
     \<and> create_house_with_sound_icon (pillow no_curves accepting) 48 = Inr a
     \<and> create_house_with_sound_icon (pillow no_curves (refusing (Exn ''OSError'' ''disk full''))) 48 = Inr b
     \<and> a = b"
proof -
  obtain img2 calls2 where
    r2: "create_house_with_sound_icon (traced (pillow no_curves accepting)) 48 = Inr (img2, calls2)"
    using pillow_run_ok[of 48 no_curves accepting] by auto
  obtain b cs where
    r3: "create_house_with_sound_icon (traced (pillow no_curves (refusing (Exn ''OSError'' ''disk full'')))) 48
           = Inr (b, cs)"
    using pillow_run_ok[of 48 no_curves "refusing (Exn ''OSError'' ''disk full'')"] by auto
  note ua = traced_run_untraced[OF r2]
  note ub = traced_run_untraced[OF r3]
  from render_deterministic[OF stub_run_48 r2 ua ub]
  have "snd (projr (create_house_with_sound_icon (traced stub_pil) 48)) = calls2 \<and> img2 = b"
    by (simp add: stub_run_48)
  with r2 ua ub show ?thesis by blast
qed

subsection \<open>The exporter\<close>

lemma print_simps [simp]:
  "console (print s w) = console w @ [Stdout s]" "files (print s w) = files w"
  "console (print_exc e w) = console w @ [Traceback e]" "files (print_exc e w) = files w"
  by (simp_all add: print_def print_exc_def)

lemma render_all_Inr:
  assumes "render_all L sizes acc w = (Inr imgs, w')"
  shows "\<exists>new. imgs = acc @ new
          \<and> map (create_house_with_sound_icon L) sizes = map Inr new
          \<and> files w' = files w
          \<and> console w' = console w @
               map (\<lambda>sz. Stdout (''  Creating '' @ str_int sz @ ''x'' @ str_int sz @ '' icon...'')) sizes"
  using assms
proof (induction sizes arbitrary: acc w)
  case Nil
  then show ?case by simp
next
  case (Cons sz sizes)
  from Cons.prems obtain img where
    r: "create_house_with_sound_icon L sz = Inr img"
    and rest: "render_all L sizes (acc @ [img])
                 (print (''  Creating '' @ str_int sz @ ''x'' @ str_int sz @ '' icon...'') w) = (Inr imgs, w')"
    by (auto simp: Let_def split: sum.splits)
  from Cons.IH[OF rest] obtain new where
    n: "imgs = (acc @ [img]) @ new"
      "map (create_house_with_sound_icon L) sizes = map Inr new"
      "files w' = files w"
      "console w' = console w @ [Stdout (''  Creating '' @ str_int sz @ ''x'' @ str_int sz @ '' icon...'')] @
               map (\<lambda>sz. Stdout (''  Creating '' @ str_int sz @ ''x'' @ str_int sz @ '' icon...'')) sizes"
    by auto
  show ?case
    by (rule exI[of _ "img # new"]) (simp add: n r)
qed

lemma create_ico_Inr:
  assumes "create_ico L path sizes w = (Inr u, w')"
  shows "\<exists>first others.
           map (create_house_with_sound_icon L) sizes = map Inr (first # others)
         \<and> save L first path ''ICO'' others
              (Some (map (\<lambda>img. (img_width L img, img_height L img)) (first # others))) (files w)
             = (Inr (), files w')
         \<and> console w' = console w @ [Stdout ''Generating icon at multiple resolutions...''] @
               map (\<lambda>sz. Stdout (''  Creating '' @ str_int sz @ ''x'' @ str_int sz @ '' icon...'')) sizes @
               [Stdout (''Saving ICO file to '' @ path @ ''...''),
                Stdout (''Successfully created '' @ path),
                Stdout (''Number of sizes: '' @ str_int (int (length sizes))),
                Stdout (''Sizes included: '' @ str_int_list sizes)]"
proof -
  from assms obtain imgs w1 where
    ra: "render_all L sizes [] (print ''Generating icon at multiple resolutions...'' w) = (Inr imgs, w1)"
    by (auto simp: create_ico_def Let_def split: prod.splits sum.splits)
  from render_all_Inr[OF ra] have
    m: "map (create_house_with_sound_icon L) sizes = map Inr imgs"
    and f1: "files w1 = files w"
    and c1: "console w1 = console w @ [Stdout ''Generating icon at multiple resolutions...''] @
               map (\<lambda>sz. Stdout (''  Creating '' @ str_int sz @ ''x'' @ str_int sz @ '' icon...'')) sizes"
    by auto
  from assms ra obtain first others where imgs: "imgs = first # others"
    by (cases imgs) (auto simp: create_ico_def Let_def split: prod.splits sum.splits)
  from assms ra imgs obtain fs where
    sv: "save L first path ''ICO'' others
              (Some (map (\<lambda>img. (img_width L img, img_height L img)) (first # others))) (files w1)
             = (Inr (), fs)"
    by (auto simp: create_ico_def Let_def split: prod.splits sum.splits)
  from assms ra imgs sv have
    w': "w' = print (''Sizes included: '' @ str_int_list sizes)
               (print (''Number of sizes: '' @ str_int (int (length sizes)))
                 (print (''Successfully created '' @ path)
                   ((print (''Saving ICO file to '' @ path @ ''...'') w1)\<lparr>files := fs\<rparr>)))"
    by (simp add: create_ico_def Let_def)
  show ?thesis
    using m sv by (intro exI[of _ first] exI[of _ others]) (simp add: imgs w' f1 c1)
qed

lemma main_try_Inr:
  assumes "main_try L output_file png_file w = (Inr u, w')"
  shows "\<exists>png_icon fs w1 w2.
           create_house_with_sound_icon L 48 = Inr png_icon
         \<and> save L png_icon png_file ''PNG'' [] None (files w) = (Inr (), fs)
         \<and> w1 = print (''PNG icon created: '' @ png_file) ((print ''Creating PNG icon...'' w)\<lparr>files := fs\<rparr>)
         \<and> create_ico L output_file default_sizes w1 = (Inr (), w2)
         \<and> w' = print (''  - '' @ png_file @ '' (48x48 PNG)'')
                  (print (''  - '' @ output_file @ '' (multi-resolution ICO)'')
                    (print (CHR 0x0A # ''Icon files created successfully!'') w2))"
  using assms
  by (auto simp: main_try_def Let_def split: prod.splits sum.splits)

lemma traced_save:
  assumes "save (traced L) img path fmt app sizes fsr = (r, fsr')"
  shows "snd fsr' = snd fsr @ [Save path fmt img app sizes]
       \<and> save L (fst img) path fmt (map fst app) sizes (fst fsr) = (r, fst fsr')"
  using assms by (cases fsr) (auto simp: traced_def split: prod.splits)

lemma traced_dims:
  "img_width (traced L) i = img_width L (fst i)" "img_height (traced L) i = img_height L (fst i)"
  by (cases i; simp add: traced_def)+

lemma main_status_0:
  assumes "main L w = (w', 0)"
  shows "main_try L ''src/app.ico'' ''src/app.png'' w = (Inr (), w')"
  using assms by (auto simp: main_def Let_def split: prod.splits sum.splits)

lemma creating_lines:
  "map (\<lambda>sz. Stdout (''  Creating '' @ str_int sz @ ''x'' @ str_int sz @ '' icon...'')) default_sizes =
     [Stdout ''  Creating 16x16 icon...'', Stdout ''  Creating 24x24 icon...'',
      Stdout ''  Creating 32x32 icon...'', Stdout ''  Creating 48x48 icon...'',
      Stdout ''  Creating 256x256 icon...'']"
  "str_int (int (length default_sizes)) = ''5''"
  "str_int_list default_sizes = ''[16, 24, 32, 48, 256]''"
  by (simp_all add: default_sizes_def str_int_def str_int_list_def str_nat.simps digit_def)

subsection \<open>C4: what the exporter renders and saves\<close>

text \<open>
  C4. A run of the main program that ends with status 0 has rendered at size
  48 and made one \<^verbatim>\<open>save\<close> request for it, to \<^verbatim>\<open>src/app.png\<close> in format
  \<^verbatim>\<open>PNG\<close>, with no further frame; then it has rendered once at each of the
  sizes 16, 24, 32, 48 and 256, in this order (one line printed for each), and
  made one \<^verbatim>\<open>save\<close> request to \<^verbatim>\<open>src/app.ico\<close> in format \<^verbatim>\<open>ICO\<close>: the image
  rendered at 16 is the one saved, the four others are its \<^verbatim>\<open>append_images\<close>,
  and \<^verbatim>\<open>sizes\<close> lists the dimensions of the five. It has made no other
  request. What the encoder writes for a request is the library's part.
\<close>

theorem exporter_requests:
  assumes "main (traced L) w = (w', 0)"
  shows "\<exists>png i16 i24 i32 i48 i256.
      create_house_with_sound_icon (traced L) 48 = Inr png
    \<and> map (create_house_with_sound_icon (traced L)) [16, 24, 32, 48, 256]
        = map Inr [i16, i24, i32, i48, i256]
    \<and> snd (files w') = snd (files w) @
        [Save ''src/app.png'' ''PNG'' png [] None,
         Save ''src/app.ico'' ''ICO'' i16 [i24, i32, i48, i256]
           (Some (map (\<lambda>i. (img_width L (fst i), img_height L (fst i))) [i16, i24, i32, i48, i256]))]
    \<and> console w' = console w @
        [Stdout ''Creating PNG icon...'',
         Stdout ''PNG icon created: src/app.png'',
         Stdout ''Generating icon at multiple resolutions...'',
         Stdout ''  Creating 16x16 icon...'',
         Stdout ''  Creating 24x24 icon...'',
         Stdout ''  Creating 32x32 icon...'',
         Stdout ''  Creating 48x48 icon...'',
         Stdout ''  Creating 256x256 icon...'',
         Stdout ''Saving ICO file to src/app.ico...'',
         Stdout ''Successfully created src/app.ico'',
         Stdout ''Number of sizes: 5'',
         Stdout ''Sizes included: [16, 24, 32, 48, 256]'',
         Stdout (CHR 0x0A # ''Icon files created successfully!''),
         Stdout ''  - src/app.ico (multi-resolution ICO)'',
         Stdout ''  - src/app.png (48x48 PNG)'']"
proof -
  from main_try_Inr[OF main_status_0[OF assms]] obtain png fs w1 w2 where
    r48: "create_house_with_sound_icon (traced L) 48 = Inr png"
    and sp: "save (traced L) png ''src/app.png'' ''PNG'' [] None (files w) = (Inr (), fs)"
    and w1: "w1 = print (''PNG icon created: '' @ ''src/app.png'')
                    ((print ''Creating PNG icon...'' w)\<lparr>files := fs\<rparr>)"
    and ico: "create_ico (traced L) ''src/app.ico'' default_sizes w1 = (Inr (), w2)"
    and w': "w' = print (''  - '' @ ''src/app.png'' @ '' (48x48 PNG)'')
                  (print (''  - '' @ ''src/app.ico'' @ '' (multi-resolution ICO)'')
                    (print (CHR 0x0A # ''Icon files created successfully!'') w2))"
    by blast
  from create_ico_Inr[OF ico] obtain first others where
    m: "map (create_house_with_sound_icon (traced L)) default_sizes = map Inr (first # others)"
    and si: "save (traced L) first ''src/app.ico'' ''ICO'' others
              (Some (map (\<lambda>img. (img_width (traced L) img, img_height (traced L) img)) (first # others)))
              (files w1) = (Inr (), files w2)"
    and c2: "console w2 = console w1 @ [Stdout ''Generating icon at multiple resolutions...''] @
               map (\<lambda>sz. Stdout (''  Creating '' @ str_int sz @ ''x'' @ str_int sz @ '' icon...'')) default_sizes @
               [Stdout (''Saving ICO file to '' @ ''src/app.ico'' @ ''...''),
                Stdout (''Successfully created '' @ ''src/app.ico''),
                Stdout (''Number of sizes: '' @ str_int (int (length default_sizes))),
                Stdout (''Sizes included: '' @ str_int_list default_sizes)]"
    by blast
  from m have "length others = 4" by (auto simp: default_sizes_def dest: map_eq_imp_length_eq)
  then obtain i24 i32 i48 i256 where others: "others = [i24, i32, i48, i256]"
    by (auto simp: length_Suc_conv numeral_eq_Suc)
  have frames: "map (create_house_with_sound_icon (traced L)) [16, 24, 32, 48, 256]
        = map Inr [first, i24, i32, i48, i256]"
    using m by (simp add: default_sizes_def others)
  have f1: "files w1 = fs" by (simp add: w1)
  have s1: "snd fs = snd (files w) @ [Save ''src/app.png'' ''PNG'' png [] None]"
    using traced_save[OF sp] by simp
  have s2: "snd (files w2) = snd fs @ [Save ''src/app.ico'' ''ICO'' first [i24, i32, i48, i256]
           (Some (map (\<lambda>i. (img_width L (fst i), img_height L (fst i))) [first, i24, i32, i48, i256]))]"
    using traced_save[OF si] by (simp add: f1 others traced_dims)
  have files: "snd (files w') = snd (files w) @
        [Save ''src/app.png'' ''PNG'' png [] None,
         Save ''src/app.ico'' ''ICO'' first [i24, i32, i48, i256]
           (Some (map (\<lambda>i. (img_width L (fst i), img_height L (fst i))) [first, i24, i32, i48, i256]))]"
    by (simp add: w' s2 s1)
  have cons: "console w' = console w @
        [Stdout ''Creating PNG icon...'',
         Stdout ''PNG icon created: src/app.png'',
         Stdout ''Generating icon at multiple resolutions...'',
         Stdout ''  Creating 16x16 icon...'',
         Stdout ''  Creating 24x24 icon...'',
         Stdout ''  Creating 32x32 icon...'',
         Stdout ''  Creating 48x48 icon...'',
         Stdout ''  Creating 256x256 icon...'',
         Stdout ''Saving ICO file to src/app.ico...'',
         Stdout ''Successfully created src/app.ico'',
         Stdout ''Number of sizes: 5'',
         Stdout ''Sizes included: [16, 24, 32, 48, 256]'',
         Stdout (CHR 0x0A # ''Icon files created successfully!''),
         Stdout ''  - src/app.ico (multi-resolution ICO)'',
         Stdout ''  - src/app.png (48x48 PNG)'']"
    by (simp add: w' c2[unfolded creating_lines] w1)
  from r48 frames files cons show ?thesis by blast
qed

lemma traced_pillow_save:
  "save (traced (pillow R accepting)) img path fmt app sizes ((), reqs) =
     (Inr (), ((), reqs @ [Save path fmt img app sizes]))"
  by (simp add: traced_def pillow_ops accepting_def)

lemma main_pillow_ok:
  "\<exists>w'. main (traced (pillow R accepting)) \<lparr>console = [], files = ((), [])\<rparr> = (w', 0)"
proof -
  obtain i48 c48 where r48: "create_house_with_sound_icon (traced (pillow R accepting)) 48 = Inr (i48, c48)"
    using pillow_run_ok[of 48 R accepting] by auto
  obtain i16 c16 where r16: "create_house_with_sound_icon (traced (pillow R accepting)) 16 = Inr (i16, c16)"
    using pillow_run_ok[of 16 R accepting] by auto
  obtain i24 c24 where r24: "create_house_with_sound_icon (traced (pillow R accepting)) 24 = Inr (i24, c24)"
    using pillow_run_ok[of 24 R accepting] by auto
  obtain i32 c32 where r32: "create_house_with_sound_icon (traced (pillow R accepting)) 32 = Inr (i32, c32)"
    using pillow_run_ok[of 32 R accepting] by auto
  obtain i256 c256 where r256: "create_house_with_sound_icon (traced (pillow R accepting)) 256 = Inr (i256, c256)"
    using pillow_run_ok[of 256 R accepting] by auto
  show ?thesis
    by (simp add: main_def main_try_def create_ico_def default_sizes_def Let_def
          r48 r16 r24 r32 r256 traced_pillow_save print_def)
qed

text \<open>
  In the pixel model the exporter ends with status 0, and the frames of its two
  requests have the dimensions 48 x 48 and 16 x 16, 24 x 24, 32 x 32, 48 x 48,
  256 x 256.
\<close>

theorem exporter_requests_witness:
  "\<exists>w'. main (traced (pillow no_curves accepting)) \<lparr>console = [], files = ((), [])\<rparr> = (w', 0)
     \<and> map sv_path (snd (files w')) = [''src/app.png'', ''src/app.ico'']
     \<and> map sv_format (snd (files w')) = [''PNG'', ''ICO'']
     \<and> map (\<lambda>r. map (\<lambda>i. (width (fst i), height (fst i))) (sv_image r # sv_append_images r))
           (snd (files w'))
         = [[(48, 48)], [(16, 16), (24, 24), (32, 32), (48, 48), (256, 256)]]
     \<and> map sv_sizes (snd (files w'))
         = [None, Some [(16, 16), (24, 24), (32, 32), (48, 48), (256, 256)]]"
proof -
  obtain w' where m: "main (traced (pillow no_curves accepting)) \<lparr>console = [], files = ((), [])\<rparr> = (w', 0)"
    using main_pillow_ok[of no_curves] by auto
  from exporter_requests[OF m] obtain png i16 i24 i32 i48 i256 where
    r48: "create_house_with_sound_icon (traced (pillow no_curves accepting)) 48 = Inr png"
    and fr: "map (create_house_with_sound_icon (traced (pillow no_curves accepting))) [16, 24, 32, 48, 256]
        = map Inr [i16, i24, i32, i48, i256]"
    and fs: "snd (files w') =
        [Save ''src/app.png'' ''PNG'' png [] None,
         Save ''src/app.ico'' ''ICO'' i16 [i24, i32, i48, i256]
           (Some (map (\<lambda>i. (img_width (pillow no_curves accepting) (fst i),
                              img_height (pillow no_curves accepting) (fst i))) [i16, i24, i32, i48, i256]))]"
    by auto
  have d: "width (fst i) = sz \<and> height (fst i) = sz"
    if "0 \<le> sz" "create_house_with_sound_icon (traced (pillow no_curves accepting)) sz = Inr i" for i sz
  proof -
    from that(2) have "create_house_with_sound_icon (traced (pillow no_curves accepting)) sz
                         = Inr (fst i, snd i)"
      by simp
    from pillow_run_px[OF that(1) this, of 0 0] show ?thesis by simp
  qed
  from fr have
    "create_house_with_sound_icon (traced (pillow no_curves accepting)) 16 = Inr i16"
    "create_house_with_sound_icon (traced (pillow no_curves accepting)) 24 = Inr i24"
    "create_house_with_sound_icon (traced (pillow no_curves accepting)) 32 = Inr i32"
    "create_house_with_sound_icon (traced (pillow no_curves accepting)) 48 = Inr i48"
    "create_house_with_sound_icon (traced (pillow no_curves accepting)) 256 = Inr i256"
    by simp_all
  then have dims: "width (fst i16) = 16 \<and> height (fst i16) = 16"
    "width (fst i24) = 24 \<and> height (fst i24) = 24"
    "width (fst i32) = 32 \<and> height (fst i32) = 32"
    "width (fst i48) = 48 \<and> height (fst i48) = 48"
    "width (fst i256) = 256 \<and> height (fst i256) = 256"
    using d by simp_all
  have dpng: "width (fst png) = 48 \<and> height (fst png) = 48" using d[OF _ r48] by simp
  show ?thesis
    using m by (intro exI[of _ w']) (simp add: fs dims dpng pillow_ops)
qed

end
